theory Spec2Isabelle
  imports Main "HOL-Library.Word"
begin

section \<open>The error value of package qerr\<close>

text \<open>
  The development follows \<^verbatim>\<open>internal/qerr/quic_error.go\<close>. The five constructors
  return the address of a fresh struct, never a nil pointer, and no function of the file
  writes to a struct after it has been built, so a constructor is modelled as returning
  the record itself. Where a \<^verbatim>\<open>*QuicError\<close> may be nil, as in the argument and the
  result of the converter, the pointer is a \<open>QuicError option\<close> and \<open>None\<close> is nil.
\<close>

text \<open>
  Modelled from the spec: the declaration of the type \<^verbatim>\<open>ErrorCode\<close> lives in the
  error-code registry, which is not among the sources. The spec calls it an unsigned
  numeric error code; \<^verbatim>\<open>Error\<close> converts it with \<^verbatim>\<open>uint64(e.ErrorCode)\<close> and
  \<^verbatim>\<open>NewCryptoError\<close> adds the constant \<^verbatim>\<open>0x100\<close> to it, so it is taken to be an
  unsigned 64-bit integer.
\<close>

type_synonym ErrorCode = "64 word"

record QuicError =
  ErrorCode :: ErrorCode
  FrameType :: "64 word"
  ErrorMessage :: string
  isTimeout :: bool
  isApplicationError :: bool

text \<open>
  The parts of the registry that the file calls and whose contents neither the sources nor
  the spec determine are parameters of the model: the constant \<^verbatim>\<open>InternalError\<close> and
  the methods \<^verbatim>\<open>ErrorCode.String()\<close> and \<^verbatim>\<open>ErrorCode.Message()\<close>.
\<close>

record registry =
  InternalError :: ErrorCode
  String :: "ErrorCode \<Rightarrow> string"
  Message :: "ErrorCode \<Rightarrow> string"

text \<open>
  Modelled from the spec: the method \<^verbatim>\<open>ErrorCode.isCryptoError()\<close> belongs to the
  registry and is not among the sources. The spec describes it as the check that a code
  lies in the reserved crypto band, the band being the fixed base \<^verbatim>\<open>0x100\<close> plus an
  alert value between 0 and 255.
\<close>

definition isCryptoError :: "ErrorCode \<Rightarrow> bool" where
  "isCryptoError c = (0x100 \<le> c \<and> c \<le> 0x100 + 255)"

subsection \<open>Constructors\<close>

text \<open>A field that a Go struct literal does not mention holds its zero value.\<close>

definition NewError :: "ErrorCode \<Rightarrow> string \<Rightarrow> QuicError" where
  "NewError errorCode errorMessage =
     \<lparr>ErrorCode = errorCode, FrameType = 0, ErrorMessage = errorMessage,
      isTimeout = False, isApplicationError = False\<rparr>"

definition NewErrorWithFrameType :: "ErrorCode \<Rightarrow> 64 word \<Rightarrow> string \<Rightarrow> QuicError" where
  "NewErrorWithFrameType errorCode frameType errorMessage =
     \<lparr>ErrorCode = errorCode, FrameType = frameType, ErrorMessage = errorMessage,
      isTimeout = False, isApplicationError = False\<rparr>"

definition NewTimeoutError :: "string \<Rightarrow> QuicError" where
  "NewTimeoutError errorMessage =
     \<lparr>ErrorCode = 0, FrameType = 0, ErrorMessage = errorMessage,
      isTimeout = True, isApplicationError = False\<rparr>"

text \<open>The conversion \<^verbatim>\<open>ErrorCode(tlsAlert)\<close> zero-extends the \<^verbatim>\<open>uint8\<close>.\<close>

definition NewCryptoError :: "8 word \<Rightarrow> string \<Rightarrow> QuicError" where
  "NewCryptoError tlsAlert errorMessage =
     \<lparr>ErrorCode = 0x100 + ucast tlsAlert, FrameType = 0, ErrorMessage = errorMessage,
      isTimeout = False, isApplicationError = False\<rparr>"

definition NewApplicationError :: "ErrorCode \<Rightarrow> string \<Rightarrow> QuicError" where
  "NewApplicationError errorCode errorMessage =
     \<lparr>ErrorCode = errorCode, FrameType = 0, ErrorMessage = errorMessage,
      isTimeout = False, isApplicationError = True\<rparr>"

subsection \<open>Formatting\<close>

text \<open>
  \<^verbatim>\<open>fmt.Sprintf("%#x", v)\<close> on an unsigned integer prints \<^verbatim>\<open>0x\<close> and the digits of
  \<^verbatim>\<open>v\<close> in base 16, lower case, without leading zeros (a single \<^verbatim>\<open>0\<close> for zero).
\<close>

definition hexChar :: "nat \<Rightarrow> char" where
  "hexChar d = ''0123456789abcdef'' ! (d mod 16)"

fun hexDigits :: "nat \<Rightarrow> string" where
  "hexDigits n = (if n < 16 then [hexChar n] else hexDigits (n div 16) @ [hexChar (n mod 16)])"

declare hexDigits.simps [simp del]

definition Sprintf_hex :: "64 word \<Rightarrow> string" where
  "Sprintf_hex v = ''0x'' @ hexDigits (unat v)"

definition Error :: "registry \<Rightarrow> QuicError \<Rightarrow> string" where
  "Error R e =
     (if isApplicationError e then
        (if length (ErrorMessage e) = 0
         then ''Application error '' @ Sprintf_hex (ErrorCode e)
         else ''Application error '' @ Sprintf_hex (ErrorCode e) @ '': '' @ ErrorMessage e)
      else
        (let str = String R (ErrorCode e);
             str = (if FrameType e \<noteq> 0
                    then str @ '' (frame type: '' @ Sprintf_hex (FrameType e) @ '')''
                    else str);
             msg = ErrorMessage e;
             msg = (if length msg = 0 then Message R (ErrorCode e) else msg)
         in if length msg = 0 then str else str @ '': '' @ msg))"

subsection \<open>Classification\<close>

definition IsCryptoError :: "QuicError \<Rightarrow> bool" where
  "IsCryptoError e = isCryptoError (ErrorCode e)"

definition IsApplicationError :: "QuicError \<Rightarrow> bool" where
  "IsApplicationError e = isApplicationError e"

definition Temporary :: "QuicError \<Rightarrow> bool" where
  "Temporary e = False"

definition Timeout :: "QuicError \<Rightarrow> bool" where
  "Timeout e = isTimeout e"

subsection \<open>Conversion\<close>

text \<open>
  The argument of \<^verbatim>\<open>ToQuicError\<close> is a Go \<^verbatim>\<open>error\<close> interface value. The type switch
  tells apart a \<^verbatim>\<open>*QuicError\<close> (possibly a nil pointer of that type), an
  \<^verbatim>\<open>ErrorCode\<close> and every other dynamic type. All the function does with a value of
  another dynamic type is to call its \<^verbatim>\<open>Error()\<close> method, so such a value is
  represented by the outcome of that call: \<open>Some\<close> of the description it returns, or
  \<open>None\<close> when the call panics, as it does for a nil pointer of a type whose method
  reads through the receiver. A call that does not return at all is treated like a
  panic: the converter yields no value. The nil interface value matches neither case of
  the switch, and the call \<^verbatim>\<open>err.Error()\<close> after the switch panics with a nil
  dereference.
\<close>

datatype error =
    Nil_error
  | QuicError_ptr "QuicError option"
  | ErrorCode_value ErrorCode
  | Other_error "string option"

datatype panic = NilDereference | PanicInErrorMethod

fun ToQuicError :: "registry \<Rightarrow> error \<Rightarrow> panic + QuicError option" where
  "ToQuicError R (QuicError_ptr e) = Inr e"
| "ToQuicError R (ErrorCode_value e) = Inr (Some (NewError e ''''))"
| "ToQuicError R (Other_error (Some description)) =
     Inr (Some (NewError (InternalError R) description))"
| "ToQuicError R (Other_error None) = Inl PanicInErrorMethod"
| "ToQuicError R Nil_error = Inl NilDereference"

text \<open>Feeding the result of one call to the next; a panic ends the run.\<close>

definition and_then :: "panic + 'a \<Rightarrow> ('a \<Rightarrow> panic + 'b) \<Rightarrow> panic + 'b" where
  "and_then r f = (case r of Inl p \<Rightarrow> Inl p | Inr v \<Rightarrow> f v)"

subsection \<open>Values produced by the package\<close>

text \<open>
  The values a caller can obtain from the package: the results of the five constructors
  and the results of the converter, where an argument of the converter that is itself a
  \<^verbatim>\<open>*QuicError\<close> was obtained in the same way.
\<close>

inductive produced :: "registry \<Rightarrow> QuicError \<Rightarrow> bool" for R :: registry where
  by_NewError: "produced R (NewError c m)"
| by_NewErrorWithFrameType: "produced R (NewErrorWithFrameType c f m)"
| by_NewTimeoutError: "produced R (NewTimeoutError m)"
| by_NewCryptoError: "produced R (NewCryptoError a m)"
| by_NewApplicationError: "produced R (NewApplicationError c m)"
| by_ToQuicError_QuicError:
    "produced R q \<Longrightarrow> ToQuicError R (QuicError_ptr (Some q)) = Inr (Some e) \<Longrightarrow> produced R e"
| by_ToQuicError_ErrorCode:
    "ToQuicError R (ErrorCode_value c) = Inr (Some e) \<Longrightarrow> produced R e"
| by_ToQuicError_other: "ToQuicError R (Other_error d) = Inr (Some e) \<Longrightarrow> produced R e"

text \<open>
  The three categories of the spec, read from the two flags the way \<^verbatim>\<open>Timeout()\<close>
  and \<^verbatim>\<open>IsApplicationError()\<close> report them; a value with neither flag is a transport
  error.
\<close>

datatype category = Transport | Application | TimeoutCategory

fun in_category :: "category \<Rightarrow> QuicError \<Rightarrow> bool" where
  "in_category Transport e = (\<not> isTimeout e \<and> \<not> isApplicationError e)"
| "in_category Application e = isApplicationError e"
| "in_category TimeoutCategory e = isTimeout e"

subsection \<open>The rendering rule in the words of the spec\<close>

text \<open>
  A number in hexadecimal: a string of the digits \<^verbatim>\<open>0\<close> to \<^verbatim>\<open>9\<close> and \<^verbatim>\<open>a\<close> to
  \<^verbatim>\<open>f\<close> that is not empty, starts with \<^verbatim>\<open>0\<close> only when it is the single digit
  \<^verbatim>\<open>0\<close>, and whose value in base 16 is the number. The value is read off the string
  digit by digit, independently of the function that prints.
\<close>

definition hexIndex :: "char \<Rightarrow> nat" where
  "hexIndex ch = length (takeWhile (\<lambda>d. d \<noteq> ch) ''0123456789abcdef'')"

definition hexValue :: "string \<Rightarrow> nat" where
  "hexValue ds = foldl (\<lambda>acc ch. 16 * acc + hexIndex ch) 0 ds"

definition hex_numeral :: "string \<Rightarrow> nat \<Rightarrow> bool" where
  "hex_numeral ds n =
     (ds \<noteq> [] \<and> set ds \<subseteq> set ''0123456789abcdef''
      \<and> (hd ds = CHR ''0'') = (ds = ''0'') \<and> hexValue ds = n)"

text \<open>
  The spec describes the rendering of a value that is not an application error in two
  parts: the short name with the optional frame context, where \<open>ds\<close> stands for the
  frame type in hexadecimal, and the message that is shown.
\<close>

definition short_name_part :: "registry \<Rightarrow> QuicError \<Rightarrow> string \<Rightarrow> string" where
  "short_name_part R e ds =
     String R (ErrorCode e) @
     (if FrameType e = 0 then '''' else '' (frame type: 0x'' @ ds @ '')'')"

definition resolved_message :: "registry \<Rightarrow> QuicError \<Rightarrow> string" where
  "resolved_message R e =
     (if ErrorMessage e = '''' then Message R (ErrorCode e) else ErrorMessage e)"

subsection \<open>A registry instance\<close>

text \<open>
  The general statements below hold for every registry. Where the formatter or the
  converter is evaluated on a concrete input, the registry is this small instance: three
  short names, a default message for one code, and 1 as the internal-error code.
\<close>

definition sample_registry :: registry where
  "sample_registry =
     \<lparr>InternalError = 1,
      String = (\<lambda>c. if c = 0 then ''NO_ERROR''
                     else if c = 1 then ''INTERNAL_ERROR'' else ''PROTOCOL_VIOLATION''),
      Message = (\<lambda>c. if c = 1 then ''internal failure'' else '''')\<rparr>"

section \<open>Auxiliary facts\<close>

lemma isCryptoError_unat: "isCryptoError c \<longleftrightarrow> 256 \<le> unat c \<and> unat c \<le> 511"
  by (simp add: isCryptoError_def word_le_nat_alt)

lemma unat_crypto_code: "unat (0x100 + ucast (a :: 8 word) :: 64 word) = 256 + unat a"
proof -
  have "unat a < 2 ^ LENGTH(8)" by (rule unsigned_less)
  then have "unat a < 256" by simp
  then show ?thesis
    by (simp add: unat_word_ariths unsigned_ucast_eq take_bit_nat_eq_self)
qed

text \<open>The digits printed for a number denote that number.\<close>

lemma hexIndex_table: "\<forall>k \<in> set [0..<16]. hexIndex (''0123456789abcdef'' ! k) = k"
  by code_simp

lemma hexIndex_hexChar: "hexIndex (hexChar d) = d mod 16"
proof -
  have "d mod 16 \<in> set [0..<16]" by simp
  with hexIndex_table show ?thesis
    unfolding hexChar_def by blast
qed

lemma hexValue_snoc: "hexValue (ds @ [ch]) = 16 * hexValue ds + hexIndex ch"
  by (simp add: hexValue_def)

lemma hexValue_hexDigits: "hexValue (hexDigits n) = n"
proof (induction n rule: hexDigits.induct)
  case (1 n)
  show ?case
  proof (cases "n < 16")
    case True
    then show ?thesis
      by (simp add: hexDigits.simps [of n] hexValue_def hexIndex_hexChar)
  next
    case False
    with 1 have "hexValue (hexDigits (n div 16)) = n div 16" by simp
    with False show ?thesis
      by (simp add: hexDigits.simps [of n] hexValue_snoc hexIndex_hexChar)
  qed
qed

lemma Sprintf_hex_denotes:
  "take 2 (Sprintf_hex v) = ''0x'' \<and> hexValue (drop 2 (Sprintf_hex v)) = unat v"
  by (simp add: Sprintf_hex_def hexValue_hexDigits)

text \<open>The printed digits are the one hexadecimal numeral of the number.\<close>

lemma digit_table:
  "\<forall>c \<in> set ''0123456789abcdef''. hexIndex c < 16 \<and> ''0123456789abcdef'' ! hexIndex c = c"
  by code_simp

lemma hexIndex_less: "c \<in> set ''0123456789abcdef'' \<Longrightarrow> hexIndex c < 16"
  using digit_table by blast

lemma hexChar_hexIndex: "c \<in> set ''0123456789abcdef'' \<Longrightarrow> hexChar (hexIndex c) = c"
  using digit_table unfolding hexChar_def by (metis mod_less)

lemma hexChar_digit: "hexChar d \<in> set ''0123456789abcdef''"
  unfolding hexChar_def by (rule nth_mem) simp

lemma hexChar_zero: "hexChar 0 = CHR ''0''"
  by (simp add: hexChar_def)

lemma hexDigits_not_Nil: "hexDigits n \<noteq> []"
  by (simp add: hexDigits.simps [of n])

lemma set_hexDigits: "set (hexDigits n) \<subseteq> set ''0123456789abcdef''"
proof (induction n rule: hexDigits.induct)
  case (1 n)
  show ?case
  proof (cases "n < 16")
    case True
    then show ?thesis
      using hexChar_digit [of n] by (simp add: hexDigits.simps [of n])
  next
    case False
    with 1 have "set (hexDigits (n div 16)) \<subseteq> set ''0123456789abcdef''" by simp
    with False show ?thesis
      using hexChar_digit [of "n mod 16"] by (simp add: hexDigits.simps [of n])
  qed
qed

lemma hexValue_zero:
  "set ds \<subseteq> set ''0123456789abcdef'' \<Longrightarrow> hexValue ds = 0 \<Longrightarrow> set ds \<subseteq> {CHR ''0''}"
proof (induction ds rule: rev_induct)
  case Nil
  then show ?case by simp
next
  case (snoc c ds)
  from snoc.prems have c: "c \<in> set ''0123456789abcdef''"
    and ds: "set ds \<subseteq> set ''0123456789abcdef''" by simp_all
  from snoc.prems(2) have "hexValue ds = 0" and "hexIndex c = 0"
    by (simp_all add: hexValue_snoc)
  from \<open>hexIndex c = 0\<close> hexChar_hexIndex [OF c] have "c = CHR ''0''"
    by (simp add: hexChar_zero)
  with snoc.IH [OF ds \<open>hexValue ds = 0\<close>] show ?case by simp
qed

lemma hex_numeral_unique: "hex_numeral ds n \<Longrightarrow> ds = hexDigits n"
proof (induction n arbitrary: ds rule: hexDigits.induct)
  case (1 n)
  from "1.prems" have ne: "ds \<noteq> []" and dig: "set ds \<subseteq> set ''0123456789abcdef''"
    and lead: "(hd ds = CHR ''0'') = (ds = ''0'')" and val: "hexValue ds = n"
    by (simp_all add: hex_numeral_def)
  from ne obtain ds' c where ds: "ds = ds' @ [c]" by (cases ds rule: rev_cases) auto
  from dig ds have c: "c \<in> set ''0123456789abcdef''"
    and dig': "set ds' \<subseteq> set ''0123456789abcdef''" by simp_all
  from val ds have n: "n = 16 * hexValue ds' + hexIndex c" by (simp add: hexValue_snoc)
  have lt: "hexIndex c < 16" by (rule hexIndex_less [OF c])
  show ?case
  proof (cases "ds' = []")
    case True
    with n lt have "n < 16" and "hexIndex c = n" by (simp_all add: hexValue_def)
    with hexChar_hexIndex [OF c] True ds show ?thesis
      by (simp add: hexDigits.simps [of n])
  next
    case False
    with ds lead have hd': "hd ds' \<noteq> CHR ''0''" by (cases ds') auto
    have "hexValue ds' \<noteq> 0"
    proof
      assume "hexValue ds' = 0"
      from hexValue_zero [OF dig' this] False have "hd ds' = CHR ''0''"
        by (cases ds') auto
      with hd' show False by simp
    qed
    with n have ge: "\<not> n < 16" by simp
    from n lt have dv: "n div 16 = hexValue ds'" and md: "n mod 16 = hexIndex c" by simp_all
    have "hex_numeral ds' (n div 16)"
      using False dig' hd' dv by (auto simp: hex_numeral_def)
    from "1.IH" [OF ge this] have "ds' = hexDigits (n div 16)" .
    with ge md hexChar_hexIndex [OF c] ds show ?thesis
      by (simp add: hexDigits.simps [of n])
  qed
qed

lemma hexDigits_lead: "(hd (hexDigits n) = CHR ''0'') = (hexDigits n = ''0'')"
proof (induction n rule: hexDigits.induct)
  case (1 n)
  show ?case
  proof (cases "n < 16")
    case True
    then show ?thesis by (simp add: hexDigits.simps [of n])
  next
    case False
    let ?ds = "hexDigits (n div 16)"
    have ne: "?ds \<noteq> []" by (rule hexDigits_not_Nil)
    from 1 False have IH: "(hd ?ds = CHR ''0'') = (?ds = ''0'')" by simp
    have "hd ?ds \<noteq> CHR ''0''"
    proof
      assume "hd ?ds = CHR ''0''"
      with IH have "?ds = ''0''" by simp
      then have "hexValue ?ds = 0" by (simp add: hexValue_def hexIndex_def)
      then have "n div 16 = 0" by (simp add: hexValue_hexDigits)
      with False show False by simp
    qed
    with ne False show ?thesis by (simp add: hexDigits.simps [of n])
  qed
qed

lemma hex_numeral_hexDigits: "hex_numeral (hexDigits n) n"
  unfolding hex_numeral_def
  using hexDigits_not_Nil [of n] set_hexDigits [of n] hexDigits_lead [of n]
    hexValue_hexDigits [of n]
  by simp

lemma produced_flags: "produced R e \<Longrightarrow> \<not> (isTimeout e \<and> isApplicationError e)"
proof (induction rule: produced.induct)
  case (by_ToQuicError_other d e)
  then show ?case by (cases d) (auto simp: NewError_def)
qed (auto simp: NewError_def NewErrorWithFrameType_def NewTimeoutError_def
       NewCryptoError_def NewApplicationError_def)

lemma one_category:
  assumes "\<not> (isTimeout e \<and> isApplicationError e)"
  shows "\<exists>!c. in_category c e"
proof -
  let ?k = "if isTimeout e then TimeoutCategory
            else if isApplicationError e then Application else Transport"
  have "in_category c e \<longleftrightarrow> c = ?k" for c
    using assms by (cases c) auto
  then have "(\<exists>!c. in_category c e) \<longleftrightarrow> (\<exists>!c. c = ?k)" by (simp only:)
  then show ?thesis by (simp only: ex1_eq)
qed

section \<open>Properties\<close>

subsection \<open>Classifier\<close>

text \<open>
  An application error whose code is \<^verbatim>\<open>0x100\<close> is reported as a crypto error:
  \<^verbatim>\<open>IsCryptoError\<close> hands the code to the range check and never reads the
  application flag.
\<close>

theorem C1_counterexample:
  "\<not> (IsCryptoError (NewApplicationError 0x100 '''') \<longleftrightarrow>
        (\<not> IsApplicationError (NewApplicationError 0x100 '''')
         \<and> isCryptoError (ErrorCode (NewApplicationError 0x100 ''''))))"
  by (simp add: IsCryptoError_def IsApplicationError_def NewApplicationError_def
      isCryptoError_def)

text \<open>
  C1, as amended: for every error value \<^verbatim>\<open>IsCryptoError()\<close> is true exactly when the
  code lies in the reserved crypto band, whatever the two category flags are. So a value
  built by the application-error constructor is a crypto error exactly when its code is
  between \<^verbatim>\<open>0x100\<close> and \<^verbatim>\<open>0x1ff\<close>.
\<close>

theorem C1_crypto_decided_by_code:
  "(IsCryptoError e \<longleftrightarrow> isCryptoError (ErrorCode e))
   \<and> (IsCryptoError (NewApplicationError c m) \<longleftrightarrow> 256 \<le> unat c \<and> unat c \<le> 511)
   \<and> (IsCryptoError (e\<lparr>isTimeout := t, isApplicationError := b\<rparr>) \<longleftrightarrow> IsCryptoError e)"
  by (simp add: IsCryptoError_def NewApplicationError_def isCryptoError_unat)

text \<open>
  C5: for every alert value (a \<^verbatim>\<open>uint8\<close>, so between 0 and 255) and every message,
  the crypto-error constructor builds a value whose code is \<^verbatim>\<open>0x100\<close> plus the alert,
  which is a crypto error, is not an application error and is not a timeout.
\<close>

theorem C5_crypto_code_band:
  "unat (ErrorCode (NewCryptoError a m)) = 0x100 + unat a
   \<and> IsCryptoError (NewCryptoError a m)
   \<and> \<not> IsApplicationError (NewCryptoError a m)
   \<and> \<not> Timeout (NewCryptoError a m)"
  using unsigned_less [of a, where ?'a = nat]
  by (simp add: NewCryptoError_def IsCryptoError_def IsApplicationError_def Timeout_def
      isCryptoError_unat unat_crypto_code)

subsection \<open>Constructors\<close>

text \<open>
  C6: the application-error constructor leaves the frame type at 0 whatever code and
  message it is given, and so does the timeout constructor.
\<close>

theorem C6_no_frame_type:
  "FrameType (NewApplicationError errorCode errorMessage) = 0
   \<and> FrameType (NewTimeoutError timeoutMessage) = 0"
  by (simp add: NewApplicationError_def NewTimeoutError_def)

text \<open>
  C10: the plain transport constructor and the constructor with frame context, called
  with frame type 0, build equal values; the formatter and every classifier predicate
  agree on them.
\<close>

theorem C10_frame_type_zero:
  "NewError c m = NewErrorWithFrameType c 0 m
   \<and> Error R (NewError c m) = Error R (NewErrorWithFrameType c 0 m)
   \<and> IsCryptoError (NewError c m) = IsCryptoError (NewErrorWithFrameType c 0 m)
   \<and> IsApplicationError (NewError c m) = IsApplicationError (NewErrorWithFrameType c 0 m)
   \<and> Timeout (NewError c m) = Timeout (NewErrorWithFrameType c 0 m)
   \<and> Temporary (NewError c m) = Temporary (NewErrorWithFrameType c 0 m)"
  by (simp add: NewError_def NewErrorWithFrameType_def)

text \<open>
  C4: a value produced by one of the five constructors or by the converter never has
  both flags set, so it belongs to exactly one of the three categories.
\<close>

theorem C4_one_category:
  "produced R e \<Longrightarrow>
     \<not> (isTimeout e \<and> isApplicationError e) \<and> (\<exists>!c. in_category c e)"
  using produced_flags one_category by blast

theorem C4_one_category_witness:
  "produced sample_registry (NewError 1 ''boom'')
   \<and> \<not> (isTimeout (NewError 1 ''boom'') \<and> isApplicationError (NewError 1 ''boom''))
   \<and> (\<exists>!c. in_category c (NewError 1 ''boom''))"
proof -
  have "ToQuicError sample_registry (Other_error (Some ''boom''))
          = Inr (Some (NewError 1 ''boom''))"
    by (simp add: sample_registry_def)
  then have p: "produced sample_registry (NewError 1 ''boom'')"
    by (rule by_ToQuicError_other)
  with C4_one_category [OF p] show ?thesis by simp
qed

subsection \<open>Formatter\<close>

text \<open>
  A timeout error is rendered through its code: under the sample registry the value built
  from the message \<^verbatim>\<open>t\<close> reads \<^verbatim>\<open>NO_ERROR: t\<close>, the short name of code 0, and the same
  timeout value with code 1 reads \<^verbatim>\<open>INTERNAL_ERROR: t\<close>.
\<close>

theorem C2_counterexample:
  "Error sample_registry (NewTimeoutError ''t'') = ''NO_ERROR: t''
   \<and> Error sample_registry ((NewTimeoutError ''t'')\<lparr>ErrorCode := 1\<rparr>) = ''INTERNAL_ERROR: t''
   \<and> Error sample_registry ((NewTimeoutError ''t'')\<lparr>ErrorCode := 1\<rparr>)
        \<noteq> Error sample_registry (NewTimeoutError ''t'')"
  by (simp add: Error_def NewTimeoutError_def sample_registry_def)

text \<open>
  C2, as amended: the timeout constructor leaves the code at its zero value, and the
  formatter renders the value as it renders the plain transport error with code 0 and
  the same message: the registry's short name of code 0, followed by \<^verbatim>\<open>: \<close> and the
  message, or the default message of code 0 when the message is empty, or by nothing
  when both are empty.
\<close>

theorem C2_timeout_rendered_through_code:
  "ErrorCode (NewTimeoutError m) = 0
   \<and> Error R (NewTimeoutError m) = Error R (NewError 0 m)
   \<and> Error R (NewTimeoutError m) =
       (if m = '''' then (if Message R 0 = '''' then String R 0
                          else String R 0 @ '': '' @ Message R 0)
        else String R 0 @ '': '' @ m)"
  by (simp add: Error_def NewTimeoutError_def NewError_def Let_def)

text \<open>
  C7: for every value that is not an application error the formatter renders the
  registry's short name of the code, followed, when the frame type is not 0, by
  \<^verbatim>\<open> (frame type: \<close>, the frame type in hexadecimal with the prefix \<^verbatim>\<open>0x\<close>, and
  \<^verbatim>\<open>)\<close>. The message shown is the stored one, or the registry's default message of the
  code when the stored one is empty. When both are empty the short-name part is the whole
  string; otherwise \<^verbatim>\<open>: \<close> and the message follow it. Every frame type has a
  hexadecimal numeral, and the rendering holds for whichever string is one.
\<close>

theorem C7_transport_rendering:
  "(\<not> isApplicationError e \<and> hex_numeral ds (unat (FrameType e)) \<longrightarrow>
      Error R e =
        (if ErrorMessage e = '''' \<and> Message R (ErrorCode e) = '''' then short_name_part R e ds
         else short_name_part R e ds @ '': '' @ resolved_message R e))
   \<and> (\<exists>ds'. hex_numeral ds' (unat (FrameType e)))"
proof -
  have "\<exists>ds'. hex_numeral ds' (unat (FrameType e))"
    using hex_numeral_hexDigits by blast
  moreover have "Sprintf_hex (FrameType e) = ''0x'' @ ds"
    if "hex_numeral ds (unat (FrameType e))"
    using hex_numeral_unique [OF that] by (simp add: Sprintf_hex_def)
  ultimately show ?thesis
    by (simp add: Error_def Let_def short_name_part_def resolved_message_def)
qed

theorem C7_transport_rendering_witness:
  "\<not> isApplicationError (NewErrorWithFrameType 1 0x1337 '''')
   \<and> hex_numeral ''1337'' (unat (FrameType (NewErrorWithFrameType 1 0x1337 '''')))
   \<and> Error sample_registry (NewErrorWithFrameType 1 0x1337 '''')
        = ''INTERNAL_ERROR (frame type: 0x1337): internal failure''
   \<and> hex_numeral ''7'' (unat (FrameType (NewErrorWithFrameType 0 7 '''')))
   \<and> Error sample_registry (NewErrorWithFrameType 0 7 '''') = ''NO_ERROR (frame type: 0x7)''"
proof -
  have a: "\<not> isApplicationError (NewErrorWithFrameType 1 0x1337 '''')"
    and b: "\<not> isApplicationError (NewErrorWithFrameType 0 7 '''')"
    by (simp_all add: NewErrorWithFrameType_def)
  have c: "hex_numeral ''1337'' (unat (FrameType (NewErrorWithFrameType 1 0x1337 '''')))"
    and d: "hex_numeral ''7'' (unat (FrameType (NewErrorWithFrameType 0 7 '''')))"
    by (simp_all add: NewErrorWithFrameType_def hex_numeral_def hexValue_def hexIndex_def)
  show ?thesis
    using a b c d
      C7_transport_rendering [of "NewErrorWithFrameType 1 0x1337 ''''" "''1337''" sample_registry]
      C7_transport_rendering [of "NewErrorWithFrameType 0 7 ''''" "''7''" sample_registry]
    by (simp add: short_name_part_def resolved_message_def NewErrorWithFrameType_def
        sample_registry_def)
qed

text \<open>
  C8: for every application error the formatter renders \<^verbatim>\<open>Application error \<close> and the
  code in hexadecimal with the prefix \<^verbatim>\<open>0x\<close>, followed by \<^verbatim>\<open>: \<close> and the message when
  the message is not empty. Every code has a hexadecimal numeral, and the rendering holds
  for whichever string is one. Code \<^verbatim>\<open>0x42\<close> with an empty message gives
  \<^verbatim>\<open>Application error 0x42\<close>, code \<^verbatim>\<open>0x1\<close> with the message \<^verbatim>\<open>bye\<close> gives
  \<^verbatim>\<open>Application error 0x1: bye\<close>.
\<close>

theorem C8_application_rendering:
  "(isApplicationError e \<and> hex_numeral ds (unat (ErrorCode e)) \<longrightarrow>
      Error R e =
        (if ErrorMessage e = '''' then ''Application error 0x'' @ ds
         else ''Application error 0x'' @ ds @ '': '' @ ErrorMessage e))
   \<and> (\<exists>ds'. hex_numeral ds' (unat (ErrorCode e)))
   \<and> Error R (NewApplicationError 0x42 '''') = ''Application error 0x42''
   \<and> Error R (NewApplicationError 0x1 ''bye'') = ''Application error 0x1: bye''"
proof -
  have "\<exists>ds'. hex_numeral ds' (unat (ErrorCode e))"
    using hex_numeral_hexDigits by blast
  moreover have "Sprintf_hex (ErrorCode e) = ''0x'' @ ds"
    if "hex_numeral ds (unat (ErrorCode e))"
    using hex_numeral_unique [OF that] by (simp add: Sprintf_hex_def)
  moreover have "Error R (NewApplicationError 0x42 '''') = ''Application error 0x42''"
    and "Error R (NewApplicationError 0x1 ''bye'') = ''Application error 0x1: bye''"
    by (simp_all add: Error_def NewApplicationError_def Sprintf_hex_def hexDigits.simps
        hexChar_def)
  ultimately show ?thesis
    by (simp add: Error_def)
qed

theorem C8_application_rendering_witness:
  "isApplicationError (NewApplicationError 0x1f00a ''done'')
   \<and> hex_numeral ''1f00a'' (unat (ErrorCode (NewApplicationError 0x1f00a ''done'')))
   \<and> Error sample_registry (NewApplicationError 0x1f00a ''done'')
        = ''Application error 0x1f00a: done''"
proof -
  have a: "isApplicationError (NewApplicationError 0x1f00a ''done'')"
    by (simp add: NewApplicationError_def)
  have b: "hex_numeral ''1f00a'' (unat (ErrorCode (NewApplicationError 0x1f00a ''done'')))"
    by (simp add: NewApplicationError_def hex_numeral_def hexValue_def hexIndex_def)
  from C8_application_rendering
    [of "NewApplicationError 0x1f00a ''done''" "''1f00a''" sample_registry] a b
  show ?thesis
    by (simp add: NewApplicationError_def)
qed

subsection \<open>Converter\<close>

text \<open>
  C3: the converter returns a value that is already an error value unchanged, and
  converting the result of a conversion again gives the result of the first conversion,
  for every input.
\<close>

theorem C3_convert_idempotent:
  "ToQuicError R (QuicError_ptr e) = Inr e
   \<and> and_then (ToQuicError R x) (\<lambda>q. ToQuicError R (QuicError_ptr q)) = ToQuicError R x"
proof (cases x)
  case (Other_error d)
  then show ?thesis by (cases d) (simp_all add: and_then_def)
qed (simp_all add: and_then_def)

text \<open>
  On the nil error value the converter does not return: no case of the type switch
  matches it, and the call of its \<^verbatim>\<open>Error\<close> method panics. Nor does it return on a
  failure of a foreign type whose own \<^verbatim>\<open>Error\<close> method panics.
\<close>

theorem C9_counterexample:
  "ToQuicError sample_registry Nil_error = Inl NilDereference
   \<and> ToQuicError sample_registry (Other_error None) = Inl PanicInErrorMethod"
  by simp

text \<open>
  C9, as amended: the converter returns a value for every input other than the nil error
  value and a failure of a foreign type whose own \<^verbatim>\<open>Error\<close> method does not return a
  description. A bare error code gives the transport error with that code and the empty
  message; a failure of any other kind whose \<^verbatim>\<open>Error\<close> method returns a description
  gives the transport error whose code is the registry's internal-error code and whose
  message is that description.
\<close>

theorem C9_converter_cases:
  "(x \<noteq> Nil_error \<and> x \<noteq> Other_error None \<longrightarrow> (\<exists>r. ToQuicError R x = Inr r))
   \<and> ToQuicError R (ErrorCode_value c) =
       Inr (Some \<lparr>ErrorCode = c, FrameType = 0, ErrorMessage = '''',
                  isTimeout = False, isApplicationError = False\<rparr>)
   \<and> ToQuicError R (Other_error (Some d)) =
       Inr (Some \<lparr>ErrorCode = InternalError R, FrameType = 0, ErrorMessage = d,
                  isTimeout = False, isApplicationError = False\<rparr>)"
proof (cases x)
  case (Other_error d')
  then show ?thesis by (cases d') (simp_all add: NewError_def)
qed (simp_all add: NewError_def)

theorem C9_converter_cases_witness:
  "Other_error (Some ''boom'') \<noteq> Nil_error
   \<and> Other_error (Some ''boom'') \<noteq> Other_error None
   \<and> (\<exists>r. ToQuicError sample_registry (Other_error (Some ''boom'')) = Inr r)
   \<and> ToQuicError sample_registry (Other_error (Some ''boom'')) =
       Inr (Some \<lparr>ErrorCode = 1, FrameType = 0, ErrorMessage = ''boom'',
                  isTimeout = False, isApplicationError = False\<rparr>)"
  using C9_converter_cases [of "Other_error (Some ''boom'')" sample_registry 0 "''boom''"]
  by (simp add: sample_registry_def)

end
